theory Spec2Isabelle
  imports Main "HOL-Library.Sublist"
begin

section \<open>Python strings\<close>

text \<open>
  A Python \<^verbatim>\<open>str\<close> is a sequence of Unicode code points, so it is modelled as a list of
  natural numbers. \<open>U\<close> turns an ASCII literal into its code points; the backslash (92)
  and the em dash (8212) are written as numbers.
\<close>

type_synonym pystr = "nat list"

definition U :: "string \<Rightarrow> pystr" where
  "U s = map of_char s"

text \<open>
  \<^verbatim>\<open>str.isspace\<close> for one code point, which is what \<^verbatim>\<open>str.strip()\<close> removes:
  the ASCII whitespace 0x09-0x0D, 0x1C-0x1F and 0x20, and the Unicode whitespace beyond.
\<close>

definition py_isspace :: "nat \<Rightarrow> bool" where
  "py_isspace ch \<longleftrightarrow>
     (9 \<le> ch \<and> ch \<le> 13) \<or> (28 \<le> ch \<and> ch \<le> 32) \<or> ch = 133 \<or> ch = 160 \<or> ch = 5760 \<or>
     (8192 \<le> ch \<and> ch \<le> 8202) \<or> ch = 8232 \<or> ch = 8233 \<or> ch = 8239 \<or> ch = 8287 \<or>
     ch = 12288"

definition strip :: "pystr \<Rightarrow> pystr" where
  "strip s = rev (dropWhile py_isspace (rev (dropWhile py_isspace s)))"

text \<open>
  The line boundaries of \<^verbatim>\<open>str.splitlines()\<close>: LF, VT, FF, CR, FS, GS, RS, NEL, LS and PS,
  with CR LF counting as one boundary.
\<close>

definition is_linebreak :: "nat \<Rightarrow> bool" where
  "is_linebreak ch \<longleftrightarrow>
     (10 \<le> ch \<and> ch \<le> 13) \<or> (28 \<le> ch \<and> ch \<le> 30) \<or> ch = 133 \<or> ch = 8232 \<or> ch = 8233"

fun splitlines_from :: "pystr \<Rightarrow> pystr \<Rightarrow> pystr list" where
  "splitlines_from cur [] = (if cur = [] then [] else [rev cur])"
| "splitlines_from cur [ch] =
     (if is_linebreak ch then [rev cur] else [rev (ch # cur)])"
| "splitlines_from cur (ch # nxt # rest) =
     (if ch = 13 \<and> nxt = 10 then rev cur # splitlines_from [] rest
      else if is_linebreak ch then rev cur # splitlines_from [] (nxt # rest)
      else splitlines_from (ch # cur) (nxt # rest))"

definition splitlines :: "pystr \<Rightarrow> pystr list" where
  "splitlines s = splitlines_from [] s"

text \<open>\<^verbatim>\<open>sep.join(parts)\<close>.\<close>

fun join :: "pystr \<Rightarrow> pystr list \<Rightarrow> pystr" where
  "join sep [] = []"
| "join sep [p] = p"
| "join sep (p # q # ps) = p @ sep @ join sep (q # ps)"

text \<open>\<^verbatim>\<open>t in s\<close> on strings: \<open>t\<close> occurs in \<open>s\<close> as a contiguous substring.\<close>

fun contains :: "pystr \<Rightarrow> pystr \<Rightarrow> bool" where
  "contains t [] = (t = [])"
| "contains t (ch # s) = (prefix t (ch # s) \<or> contains t s)"

text \<open>
  \<^verbatim>\<open>s.replace(old, new)\<close>: the occurrences of \<open>old\<close> are found left to right and do not
  overlap; an empty \<open>old\<close> matches before every character and at the end.
\<close>

function replace :: "pystr \<Rightarrow> pystr \<Rightarrow> pystr \<Rightarrow> pystr" where
  "replace [] old new = (if old = [] then new else [])"
| "replace (ch # s) old new =
     (if old = [] then new @ ch # replace s old new
      else if prefix old (ch # s) then new @ replace (drop (length old) (ch # s)) old new
      else ch # replace s old new)"
  by pat_completeness auto
termination
  by (relation "measure (\<lambda>(s, old, new). length s)") auto

section \<open>Exceptions and the computer-algebra library\<close>

text \<open>
  A raised \<^verbatim>\<open>Exception\<close> is a value carrying the text \<^verbatim>\<open>str(e)\<close>, which is also what an
  f-string makes of \<^verbatim>\<open>{e}\<close>. A computation that
  may raise returns \<open>exn + 'a\<close>, with \<open>Inl\<close> the exception. Every call into the library is
  taken to return or to raise an \<^verbatim>\<open>Exception\<close>: a call that never returns and the
  exceptions outside \<^verbatim>\<open>Exception\<close> (\<^verbatim>\<open>KeyboardInterrupt\<close>, \<^verbatim>\<open>SystemExit\<close>) are
  not part of the model.
\<close>

datatype exn = Exception (message: pystr)

definition bind :: "exn + 'a \<Rightarrow> ('a \<Rightarrow> exn + 'b) \<Rightarrow> exn + 'b" where
  "bind m f = (case m of Inl e \<Rightarrow> Inl e | Inr x \<Rightarrow> f x)"

fun mapM :: "('a \<Rightarrow> exn + 'b) \<Rightarrow> 'a list \<Rightarrow> exn + 'b list" where
  "mapM f [] = Inr []"
| "mapM f (x # xs) = bind (f x) (\<lambda>y. bind (mapM f xs) (\<lambda>ys. Inr (y # ys)))"

text \<open>\<^verbatim>\<open>xs[0]\<close>, which raises \<^verbatim>\<open>IndexError\<close> on an empty list.\<close>

definition index0 :: "'a list \<Rightarrow> exn + 'a" where
  "index0 xs = (case xs of [] \<Rightarrow> Inl (Exception (U ''list index out of range'')) | x # _ \<Rightarrow> Inr x)"

text \<open>
  The classes the code tests with \<^verbatim>\<open>isinstance\<close>. In SymPy they are disjoint, so the
  class of an object is one value.
\<close>

datatype node = DerivativeNode | IntegralNode | EqualityNode | OtherNode

text \<open>
  What \<^verbatim>\<open>sp.solve(equation, variable)\<close> returns: a Python list of values, or some
  other object.
\<close>

datatype 'e solved = SolList "'e list" | SolObject 'e

text \<open>
  SymPy is not part of the repository. Its operations are the fields of a record over the
  type \<open>'e\<close> of its objects, and every theorem holds for every such record:
  \<^item> \<open>sp_symbols\<close>: \<^verbatim>\<open>sp.symbols(names)\<close> unpacked into three names; the program
    passes the constant \<^verbatim>\<open>"x y z"\<close> and never uses the result;
  \<^item> \<open>sp_sympify\<close>, \<open>sp_simplify\<close>, \<open>sp_N\<close>, \<open>sp_factor\<close>, \<open>sp_pretty\<close>, \<open>sp_latex\<close>,
    \<open>sp_Eq\<close>: the functions of the same names;
  \<^item> \<open>sp_solve_dict\<close>: \<^verbatim>\<open>sp.solve(expr, dict=True)\<close>, a list of dictionaries, each an
    association list in the order \<^verbatim>\<open>items()\<close> yields;
  \<^item> \<open>sp_solve\<close>: \<^verbatim>\<open>sp.solve(equation, variable)\<close>;
  \<^item> \<open>sp_Integer\<close>: the SymPy object a Python \<^verbatim>\<open>int\<close> argument is converted to;
  \<^item> \<open>cls\<close>: the class of an object, for \<^verbatim>\<open>isinstance\<close>;
  \<^item> \<open>doit\<close>, \<open>free_symbols\<close> (the set, as the list \<^verbatim>\<open>list(...)\<close> makes of it),
    \<open>is_Number\<close>, \<open>lhs\<close>, \<open>rhs\<close>, \<open>py_sub\<close> (the operator \<^verbatim>\<open>-\<close>): methods and attributes;
  \<^item> \<open>py_str\<close> and \<open>py_bool\<close>: \<^verbatim>\<open>str(obj)\<close> and the truth value of an object;
  \<^item> \<open>py_format\<close>: \<^verbatim>\<open>format(obj, "")\<close>, which is how an f-string renders \<^verbatim>\<open>{obj}\<close>; it
    need not agree with \<^verbatim>\<open>str(obj)\<close>.
\<close>

record 'e cas =
  sp_symbols :: "pystr \<Rightarrow> 'e \<times> 'e \<times> 'e"
  sp_sympify :: "pystr \<Rightarrow> exn + 'e"
  sp_simplify :: "'e \<Rightarrow> exn + 'e"
  sp_N :: "'e \<Rightarrow> exn + 'e"
  sp_factor :: "'e \<Rightarrow> exn + 'e"
  sp_pretty :: "'e \<Rightarrow> exn + pystr"
  sp_latex :: "'e \<Rightarrow> exn + pystr"
  sp_Eq :: "'e \<Rightarrow> 'e \<Rightarrow> exn + 'e"
  sp_solve_dict :: "'e \<Rightarrow> exn + ('e \<times> 'e) list list"
  sp_solve :: "'e \<Rightarrow> 'e \<Rightarrow> exn + 'e solved"
  sp_Integer :: "int \<Rightarrow> 'e"
  cls :: "'e \<Rightarrow> node"
  doit :: "'e \<Rightarrow> exn + 'e"
  free_symbols :: "'e \<Rightarrow> exn + 'e list"
  is_Number :: "'e \<Rightarrow> bool"
  lhs :: "'e \<Rightarrow> 'e"
  rhs :: "'e \<Rightarrow> 'e"
  py_sub :: "'e \<Rightarrow> 'e \<Rightarrow> exn + 'e"
  py_str :: "'e \<Rightarrow> exn + pystr"
  py_format :: "'e \<Rightarrow> exn + pystr"
  py_bool :: "'e \<Rightarrow> exn + bool"

section \<open>The solver: src/solver.py\<close>

text \<open>
  \<^verbatim>\<open>_sympy_to_display\<close>: a number is shown as \<^verbatim>\<open>str(sp.N(obj))\<close>, anything else as
  the lines of \<^verbatim>\<open>sp.pretty(obj)\<close>, each stripped, joined by one space. An exception in
  either is caught inside the function, which then returns \<^verbatim>\<open>str(obj)\<close>.
\<close>

definition sympy_to_display :: "'e cas \<Rightarrow> 'e \<Rightarrow> exn + pystr" where
  "sympy_to_display c obj =
     (case (if is_Number c obj then bind (sp_N c obj) (py_str c)
            else bind (sp_pretty c obj)
                   (\<lambda>text. Inr (join (U '' '') (map strip (splitlines text)))))
      of Inr s \<Rightarrow> Inr s
       | Inl _ \<Rightarrow> py_str c obj)"

text \<open>The branch under \<^verbatim>\<open># ---- Derivative ----\<close>.\<close>

definition derivative_branch :: "'e cas \<Rightarrow> pystr \<Rightarrow> 'e \<Rightarrow> exn + (pystr \<times> pystr)" where
  "derivative_branch c problem expr =
     bind (if cls c expr = DerivativeNode then doit c expr
           else bind (sp_sympify c problem) (doit c)) (\<lambda>deriv.
     bind (sympy_to_display c deriv) (\<lambda>display.
     bind (sp_latex c deriv) (\<lambda>latex.
     Inr (display, latex))))"

text \<open>The branch under \<^verbatim>\<open># ---- Integral ----\<close>.\<close>

definition integral_branch :: "'e cas \<Rightarrow> pystr \<Rightarrow> 'e \<Rightarrow> exn + (pystr \<times> pystr)" where
  "integral_branch c problem expr =
     bind (if cls c expr = IntegralNode then doit c expr
           else bind (sp_sympify c problem) (doit c)) (\<lambda>integral.
     bind (sympy_to_display c integral) (\<lambda>d.
     bind (sp_latex c integral) (\<lambda>l.
     Inr (d @ U '' + C'', l @ U '' + C''))))"

text \<open>
  One pass of the loop over the solutions of an equation: the display part
  \<^verbatim>\<open>f"{var} = {_sympy_to_display(val)}"\<close> and the LaTeX part
  \<^verbatim>\<open>sp.latex(sp.Eq(var, val))\<close>.
\<close>

definition solution_part :: "'e cas \<Rightarrow> 'e \<times> 'e \<Rightarrow> exn + (pystr \<times> pystr)" where
  "solution_part c item =
     (case item of (var, val) \<Rightarrow>
        bind (py_format c var) (\<lambda>sv.
        bind (sympy_to_display c val) (\<lambda>dv.
        bind (sp_Eq c var val) (\<lambda>eq.
        bind (sp_latex c eq) (\<lambda>l.
        Inr (sv @ U '' = '' @ dv, l))))))"

definition latex_sep :: pystr where
  "latex_sep = [92] @ U ''; , '' @ [92] @ U ''; ''"

text \<open>
  The branch under \<^verbatim>\<open># ---- Explicit equation Eq(...) ----\<close>. The two nested loops
  visit the items of every dictionary in order, that is, the items of \<open>concat sol\<close>.
\<close>

definition equality_branch :: "'e cas \<Rightarrow> 'e \<Rightarrow> exn + (pystr \<times> pystr)" where
  "equality_branch c expr =
     bind (sp_solve_dict c expr) (\<lambda>sol.
     if sol = [] then Inr (U ''No solution'', [92] @ U ''text{No solution}'')
     else bind (mapM (solution_part c) (concat sol)) (\<lambda>parts.
          Inr (join (U '', '') (map fst parts), join latex_sep (map snd parts))))"

text \<open>The branch under \<^verbatim>\<open># ---- Numeric / constant expression ----\<close>.\<close>

definition constant_branch :: "'e cas \<Rightarrow> 'e \<Rightarrow> exn + (pystr \<times> pystr)" where
  "constant_branch c expr =
     bind (sp_simplify c expr) (\<lambda>simplified.
     bind (sp_N c simplified) (\<lambda>numeric.
     bind (sympy_to_display c numeric) (\<lambda>display.
     bind (sp_latex c numeric) (\<lambda>latex.
     Inr (display, latex)))))"

text \<open>
  The rest of the function: solve \<^verbatim>\<open>expr = 0\<close> for the first free symbol, and fall back
  to the simplified expression when the solver returns something false. The two list
  comprehensions run one after the other.
\<close>

definition symbols_branch :: "'e cas \<Rightarrow> 'e \<Rightarrow> exn + (pystr \<times> pystr)" where
  "symbols_branch c expr =
     bind (free_symbols c expr) (\<lambda>vars_list.
     bind (index0 vars_list) (\<lambda>primary_var.
     bind (sp_Eq c expr (sp_Integer c 0)) (\<lambda>eq0.
     bind (sp_solve c eq0 primary_var) (\<lambda>sol_values.
     bind (case sol_values of SolList vs \<Rightarrow> Inr (vs \<noteq> []) | SolObject obj \<Rightarrow> py_bool c obj)
       (\<lambda>found.
     if found then
       (case sol_values of
          SolList vs \<Rightarrow>
            bind (mapM (\<lambda>v. bind (py_format c primary_var) (\<lambda>sv.
                             bind (sympy_to_display c v) (\<lambda>dv.
                             Inr (sv @ U '' = '' @ dv)))) vs) (\<lambda>display_parts.
            bind (mapM (\<lambda>v. bind (sp_Eq c primary_var v) (sp_latex c)) vs) (\<lambda>latex_parts.
            Inr (join (U '', '') display_parts, join latex_sep latex_parts)))
        | SolObject obj \<Rightarrow>
            bind (py_format c primary_var) (\<lambda>sv.
            bind (sympy_to_display c obj) (\<lambda>dv.
            bind (sp_Eq c primary_var obj) (\<lambda>eq.
            bind (sp_latex c eq) (\<lambda>latex.
            Inr (sv @ U '' = '' @ dv, latex))))))
     else
       bind (sp_simplify c expr) (\<lambda>simplified.
       bind (sympy_to_display c simplified) (\<lambda>display.
       bind (sp_latex c simplified) (\<lambda>latex.
       Inr (display, latex)))))))))"

text \<open>The body of the \<^verbatim>\<open>try\<close> block of \<^verbatim>\<open>solve_math_problem\<close>.\<close>

definition solve_body :: "'e cas \<Rightarrow> pystr \<Rightarrow> exn + (pystr \<times> pystr)" where
  "solve_body c problem =
     (let (x, y, z) = sp_symbols c (U ''x y z'') in
     bind (sp_sympify c problem) (\<lambda>expr.
     if cls c expr = DerivativeNode \<or> contains (U ''diff('') problem then
       derivative_branch c problem expr
     else if cls c expr = IntegralNode \<or> contains (U ''integrate('') problem then
       integral_branch c problem expr
     else if cls c expr = EqualityNode then
       equality_branch c expr
     else
       bind (free_symbols c expr) (\<lambda>fs.
       if fs = [] then constant_branch c expr
       else symbols_branch c expr)))"

text \<open>The \<^verbatim>\<open>except Exception\<close> clause of \<^verbatim>\<open>solve_math_problem\<close>.\<close>

definition error_pair :: "exn \<Rightarrow> pystr \<times> pystr" where
  "error_pair e =
     (let msg = U ''Error: '' @ message e;
          latex_msg = [92] @ U ''text{'' @ replace msg (U ''}'') ([92] @ U ''}'') @ U ''}''
      in (msg, latex_msg))"

definition solve_math_problem :: "'e cas \<Rightarrow> pystr \<Rightarrow> pystr \<times> pystr" where
  "solve_math_problem c problem =
     (case solve_body c problem of Inr result \<Rightarrow> result | Inl e \<Rightarrow> error_pair e)"

text \<open>
  The five shapes of an input, and the shape whose branch \<^verbatim>\<open>solve_math_problem\<close> runs
  for a parsed expression and its text: the conditions of its \<^verbatim>\<open>if\<close> statements, in
  their order.
\<close>

datatype shape = Derivative | Integral | Equality | ConstantExpression | ExpressionWithSymbols

definition solver_shape :: "'e cas \<Rightarrow> pystr \<Rightarrow> 'e \<Rightarrow> exn + shape" where
  "solver_shape c problem expr =
     (if cls c expr = DerivativeNode \<or> contains (U ''diff('') problem then Inr Derivative
      else if cls c expr = IntegralNode \<or> contains (U ''integrate('') problem then Inr Integral
      else if cls c expr = EqualityNode then Inr Equality
      else bind (free_symbols c expr) (\<lambda>fs.
           if fs = [] then Inr ConstantExpression else Inr ExpressionWithSymbols))"

definition solver_branch :: "'e cas \<Rightarrow> pystr \<Rightarrow> 'e \<Rightarrow> shape \<Rightarrow> exn + (pystr \<times> pystr)" where
  "solver_branch c problem expr s =
     (case s of
        Derivative \<Rightarrow> derivative_branch c problem expr
      | Integral \<Rightarrow> integral_branch c problem expr
      | Equality \<Rightarrow> equality_branch c expr
      | ConstantExpression \<Rightarrow> constant_branch c expr
      | ExpressionWithSymbols \<Rightarrow> symbols_branch c expr)"

section \<open>The walkthrough: src/explanation_generator.py\<close>

text \<open>The argument of \<^verbatim>\<open>_latex_block\<close>: \<^verbatim>\<open>None\<close>, a string or a SymPy object.\<close>

datatype 'e block_arg = PyNone | PyStr pystr | SymPy 'e

definition latex_block :: "'e cas \<Rightarrow> 'e block_arg \<Rightarrow> exn + pystr" where
  "latex_block c obj =
     (case obj of
        PyNone \<Rightarrow> Inr []
      | PyStr s \<Rightarrow> Inr (U ''$$ '' @ s @ U '' $$'')
      | SymPy e \<Rightarrow> bind (sp_latex c e) (\<lambda>l. Inr (U ''$$ '' @ l @ U '' $$'')))"

definition paragraphs :: "pystr list \<Rightarrow> pystr" where
  "paragraphs parts = join [10, 10] parts"

definition friendly_line :: pystr where
  "friendly_line =
     U ''**Here's what I found '' @ [8212] @
     U '' short answer first, then a quick walkthrough:**''"

text \<open>The branch under \<^verbatim>\<open># Numeric expression\<close>.\<close>

definition explain_numeric :: "'e cas \<Rightarrow> pystr \<Rightarrow> 'e \<Rightarrow> pystr list \<Rightarrow> exn + pystr" where
  "explain_numeric c problem expr parts =
     bind (sp_simplify c expr) (\<lambda>simplified.
     bind (sp_N c simplified) (\<lambda>val.
     bind (py_format c val) (\<lambda>sval.
     bind (latex_block c (SymPy val)) (\<lambda>block.
     Inr (paragraphs (parts @
       [U ''**Short answer:** '' @ sval,
        [],
        U ''**Walkthrough:**'',
        U ''- I simplified the expression `'' @ problem @ U ''` and evaluated it.'',
        block]))))))"

text \<open>The branch under \<^verbatim>\<open># Derivative\<close>.\<close>

definition explain_derivative :: "'e cas \<Rightarrow> pystr \<Rightarrow> 'e \<Rightarrow> pystr list \<Rightarrow> exn + pystr" where
  "explain_derivative c problem expr parts =
     bind (if cls c expr = DerivativeNode then doit c expr
           else bind (sp_sympify c problem) (doit c)) (\<lambda>deriv.
     bind (sp_pretty c deriv) (\<lambda>p.
     bind (latex_block c (SymPy deriv)) (\<lambda>block.
     Inr (paragraphs (parts @
       [U ''**Short answer:** '' @ p,
        [],
        U ''**Walkthrough:**'',
        U ''- You asked for the derivative of `'' @ problem @ U ''`.'',
        U ''- I applied the derivative rules and simplified the result:'',
        block])))))"

text \<open>The branch under \<^verbatim>\<open># Integral\<close>.\<close>

definition explain_integral :: "'e cas \<Rightarrow> pystr \<Rightarrow> 'e \<Rightarrow> pystr list \<Rightarrow> exn + pystr" where
  "explain_integral c problem expr parts =
     bind (if cls c expr = IntegralNode then doit c expr
           else bind (sp_sympify c problem) (doit c)) (\<lambda>integral.
     bind (sp_pretty c integral) (\<lambda>p.
     bind (latex_block c (SymPy integral)) (\<lambda>block.
     Inr (paragraphs (parts @
       [U ''**Short answer:** '' @ p @ U '' + C'',
        [],
        U ''**Walkthrough:**'',
        U ''- You requested an integral for `'' @ problem @ U ''`.'',
        U ''- I computed the antiderivative:'',
        block,
        U ''- (Remember to add the constant of integration: `+ C`)''])))))"

text \<open>One pass of the loop over the solutions of an equation: two more parts.\<close>

definition explain_solution :: "'e cas \<Rightarrow> 'e \<times> 'e \<Rightarrow> exn + pystr list" where
  "explain_solution c item =
     (case item of (var, val) \<Rightarrow>
        bind (py_format c var) (\<lambda>sv.
        bind (sp_Eq c var val) (\<lambda>eq.
        bind (latex_block c (SymPy eq)) (\<lambda>block.
        Inr [U ''- Solution: '' @ sv @ U '' ='', block]))))"

text \<open>The branch under \<^verbatim>\<open># Explicit equation Eq(...)\<close>.\<close>

definition explain_equality :: "'e cas \<Rightarrow> 'e \<Rightarrow> pystr list \<Rightarrow> exn + pystr" where
  "explain_equality c expr parts =
     bind (py_sub c (lhs c expr) (rhs c expr)) (\<lambda>difference.
     bind (sp_simplify c difference) (\<lambda>canonical.
     bind (sp_Eq c canonical (sp_Integer c 0)) (\<lambda>eq0.
     bind (latex_block c (SymPy eq0)) (\<lambda>block.
     let parts1 = parts @
       [U ''**Short answer:** I solved the equation and listed the solution(s) below.'',
        [],
        U ''**Walkthrough:**'',
        U ''- I rewrote the equation in canonical form (left - right = 0):'',
        block]
     in
     bind (sp_solve_dict c expr) (\<lambda>sol.
     if sol = [] then Inr (paragraphs (parts1 @ [U ''- I couldn't find a solution.'']))
     else bind (mapM (explain_solution c) (concat sol)) (\<lambda>more.
          Inr (paragraphs (parts1 @ concat more))))))))"

text \<open>
  The inner \<^verbatim>\<open>try\<close> around the factorization: an exception of \<^verbatim>\<open>sp.factor\<close> leaves
  the parts as they are; an exception of \<^verbatim>\<open>_latex_block\<close> comes after the first of the
  two lines has been appended.
\<close>

definition explain_factor :: "'e cas \<Rightarrow> 'e \<Rightarrow> pystr list \<Rightarrow> pystr list" where
  "explain_factor c expr parts =
     (case sp_factor c expr of
        Inl _ \<Rightarrow> parts
      | Inr factored \<Rightarrow>
          if factored \<noteq> expr then
            (let parts1 = parts @ [U ''- I checked for factorization and found:''] in
             case latex_block c (SymPy factored) of
               Inl _ \<Rightarrow> parts1
             | Inr block \<Rightarrow> parts1 @ [block])
          else parts)"

text \<open>The rest of the function, under \<^verbatim>\<open># General symbolic expression\<close>.\<close>

definition explain_symbols :: "'e cas \<Rightarrow> 'e \<Rightarrow> pystr list \<Rightarrow> exn + pystr" where
  "explain_symbols c expr parts =
     (let parts1 = parts @
        [U ''**Short answer:** I treated this as an equation `... = 0` and tried to solve for the main variable.'',
         [],
         U ''**Walkthrough:**'']
      in
      bind (free_symbols c expr) (\<lambda>vars_list.
      bind (index0 vars_list) (\<lambda>primary_var.
      bind (py_format c primary_var) (\<lambda>sv.
      let parts2 = explain_factor c expr
                     (parts1 @ [U ''- Primary variable chosen: `'' @ sv @ U ''`''])
      in
      bind (sp_Eq c expr (sp_Integer c 0)) (\<lambda>eq0.
      bind (latex_block c (SymPy eq0)) (\<lambda>block0.
      let parts3 = parts2 @ [U ''- I solved the equation:'', block0] in
      bind (sp_Eq c expr (sp_Integer c 0)) (\<lambda>eq1.
      bind (sp_solve c eq1 primary_var) (\<lambda>sol_values.
      bind (case sol_values of SolList vs \<Rightarrow> Inr (vs \<noteq> []) | SolObject obj \<Rightarrow> py_bool c obj)
        (\<lambda>found.
      if \<not> found then
        bind (sp_simplify c expr) (\<lambda>simplified.
        bind (latex_block c (SymPy simplified)) (\<lambda>block.
        Inr (paragraphs (parts3 @
          [U ''- I couldn't find algebraic roots; here is the simplified expression:'',
           block]))))
      else
        (case sol_values of
           SolList vs \<Rightarrow>
             bind (mapM (\<lambda>v. bind (sp_Eq c primary_var v) (\<lambda>eq.
                              bind (latex_block c (SymPy eq)) (\<lambda>block.
                              Inr [U ''- Solution:'', block]))) vs) (\<lambda>more.
             Inr (paragraphs (parts3 @ concat more)))
         | SolObject obj \<Rightarrow>
             bind (sp_Eq c primary_var obj) (\<lambda>eq.
             bind (latex_block c (SymPy eq)) (\<lambda>block.
             Inr (paragraphs (parts3 @ [U ''- Solution:'', block]))))))))))))))"

text \<open>The body of the \<^verbatim>\<open>try\<close> block of \<^verbatim>\<open>generate_explanation\<close>.\<close>

definition explanation_body :: "'e cas \<Rightarrow> pystr \<Rightarrow> exn + pystr" where
  "explanation_body c problem =
     (let (x, y, z) = sp_symbols c (U ''x y z'') in
     bind (sp_sympify c problem) (\<lambda>expr.
     let parts = [friendly_line] in
     bind (free_symbols c expr) (\<lambda>fs.
     if fs = [] \<and> \<not> (cls c expr = DerivativeNode \<or> cls c expr = IntegralNode \<or>
                     cls c expr = EqualityNode) then
       explain_numeric c problem expr parts
     else if cls c expr = DerivativeNode \<or> contains (U ''diff('') problem then
       explain_derivative c problem expr parts
     else if cls c expr = IntegralNode \<or> contains (U ''integrate('') problem then
       explain_integral c problem expr parts
     else if cls c expr = EqualityNode then
       explain_equality c expr parts
     else
       explain_symbols c expr parts)))"

definition sorry_line :: pystr where
  "sorry_line = U ''**Sorry '' @ [8212] @ U '' I couldn't generate a walkthrough.**''"

definition generate_explanation :: "'e cas \<Rightarrow> pystr \<Rightarrow> pystr" where
  "generate_explanation c problem =
     (case explanation_body c problem of
        Inr text \<Rightarrow> text
      | Inl e \<Rightarrow> sorry_line @ [10, 10] @ U ''Error: '' @ message e)"

text \<open>
  The shape whose branch \<^verbatim>\<open>generate_explanation\<close> runs for a parsed expression and its
  text: the conditions of its \<^verbatim>\<open>if\<close> statements, in their order.
\<close>

definition explanation_shape :: "'e cas \<Rightarrow> pystr \<Rightarrow> 'e \<Rightarrow> exn + shape" where
  "explanation_shape c problem expr =
     bind (free_symbols c expr) (\<lambda>fs.
     if fs = [] \<and> \<not> (cls c expr = DerivativeNode \<or> cls c expr = IntegralNode \<or>
                     cls c expr = EqualityNode) then Inr ConstantExpression
     else if cls c expr = DerivativeNode \<or> contains (U ''diff('') problem then Inr Derivative
     else if cls c expr = IntegralNode \<or> contains (U ''integrate('') problem then Inr Integral
     else if cls c expr = EqualityNode then Inr Equality
     else Inr ExpressionWithSymbols)"

definition explanation_branch :: "'e cas \<Rightarrow> pystr \<Rightarrow> 'e \<Rightarrow> shape \<Rightarrow> exn + pystr" where
  "explanation_branch c problem expr s =
     (case s of
        Derivative \<Rightarrow> explain_derivative c problem expr [friendly_line]
      | Integral \<Rightarrow> explain_integral c problem expr [friendly_line]
      | Equality \<Rightarrow> explain_equality c expr [friendly_line]
      | ConstantExpression \<Rightarrow> explain_numeric c problem expr [friendly_line]
      | ExpressionWithSymbols \<Rightarrow> explain_symbols c expr [friendly_line])"

section \<open>The web front end: frontend/streamlit_app.py\<close>

text \<open>
  \<^verbatim>\<open>_is_empty\<close>. The argument is \<^verbatim>\<open>None\<close> or a string (\<^verbatim>\<open>str(s)\<close> of a string is
  the string).
\<close>

definition empties :: "pystr list" where
  "empties = [U ''[]'', U ''()'', U ''Tuple()'', U ''None'', U ''NoneType'']"

definition is_empty_str :: "pystr option \<Rightarrow> bool" where
  "is_empty_str s =
     (case s of
        None \<Rightarrow> True
      | Some t \<Rightarrow> (let s2 = strip t in if s2 = [] then True else s2 \<in> set empties))"

text \<open>
  The part of \<^verbatim>\<open>_sympy_fallback\<close> that solves \<^verbatim>\<open>expr = 0\<close> for the first symbol:
  \<open>Some\<close> the pair it returns, \<open>None\<close> when control falls through to the simplification.
\<close>

definition fallback_solve :: "'e cas \<Rightarrow> 'e \<Rightarrow> 'e list \<Rightarrow> exn + (pystr \<times> pystr) option" where
  "fallback_solve c expr vars_list =
     (if vars_list \<noteq> [] then
        bind (index0 vars_list) (\<lambda>primary.
        bind (sp_Eq c expr (sp_Integer c 0)) (\<lambda>eq0.
        bind (sp_solve c eq0 primary) (\<lambda>sols.
        bind (case sols of SolList vs \<Rightarrow> Inr (vs \<noteq> []) | SolObject obj \<Rightarrow> py_bool c obj)
          (\<lambda>found.
        if found then
          (case sols of
             SolList vs \<Rightarrow>
               bind (mapM (\<lambda>v. bind (py_format c primary) (\<lambda>sv.
                                bind (sp_pretty c v) (\<lambda>pv.
                                Inr (sv @ U '' = '' @ pv)))) vs) (\<lambda>display_parts.
               bind (mapM (\<lambda>v. bind (sp_Eq c primary v) (sp_latex c)) vs) (\<lambda>latex_parts.
               Inr (Some (join (U '', '') display_parts, join latex_sep latex_parts))))
           | SolObject obj \<Rightarrow>
               bind (py_format c primary) (\<lambda>sv.
               bind (sp_pretty c obj) (\<lambda>pv.
               bind (sp_Eq c primary obj) (\<lambda>eq.
               bind (sp_latex c eq) (\<lambda>latex.
               Inr (Some (sv @ U '' = '' @ pv, latex)))))))
        else Inr None))))
      else Inr None)"

text \<open>The body of the \<^verbatim>\<open>try\<close> block of \<^verbatim>\<open>_sympy_fallback\<close>.\<close>

definition sympy_fallback_body :: "'e cas \<Rightarrow> pystr \<Rightarrow> exn + (pystr \<times> pystr)" where
  "sympy_fallback_body c problem_str =
     (let (x, y, z) = sp_symbols c (U ''x y z'') in
     bind (sp_sympify c problem_str) (\<lambda>expr.
     if cls c expr = DerivativeNode \<or> contains (U ''diff('') problem_str then
       bind (if cls c expr = DerivativeNode then doit c expr
             else bind (sp_sympify c problem_str) (doit c)) (\<lambda>deriv.
       bind (sp_pretty c deriv) (\<lambda>p.
       bind (sp_latex c deriv) (\<lambda>l.
       Inr (p, l))))
     else if cls c expr = IntegralNode \<or> contains (U ''integrate('') problem_str then
       bind (if cls c expr = IntegralNode then doit c expr
             else bind (sp_sympify c problem_str) (doit c)) (\<lambda>integral.
       bind (sp_pretty c integral) (\<lambda>p.
       bind (sp_latex c integral) (\<lambda>l.
       Inr (p @ U '' + C'', l @ U '' + C''))))
     else
       bind (free_symbols c expr) (\<lambda>fs.
       if fs = [] then
         bind (sp_simplify c expr) (\<lambda>simplified.
         bind (sp_N c simplified) (\<lambda>val.
         bind (sp_pretty c val) (\<lambda>p.
         bind (sp_latex c val) (\<lambda>l.
         Inr (p, l)))))
       else
         bind (free_symbols c expr) (\<lambda>vars_list.
         bind (fallback_solve c expr vars_list) (\<lambda>solved.
         case solved of
           Some result \<Rightarrow> Inr result
         | None \<Rightarrow>
             bind (sp_simplify c expr) (\<lambda>simplified.
             bind (sp_pretty c simplified) (\<lambda>p.
             bind (sp_latex c simplified) (\<lambda>l.
             Inr (p, l)))))))))"

definition sympy_fallback :: "'e cas \<Rightarrow> pystr \<Rightarrow> pystr \<times> pystr" where
  "sympy_fallback c problem_str =
     (case sympy_fallback_body c problem_str of
        Inr result \<Rightarrow> result
      | Inl e \<Rightarrow> (U ''Error during fallback: '' @ message e,
                  [92] @ U ''text{Error during fallback}''))"

text \<open>
  What the handler of the Solve button distinguishes in the value the solver returned:
  \<^item> \<open>RawSeq d l\<close>: a list or tuple of at least two elements, \<open>d\<close> and \<open>l\<close> being
    \<^verbatim>\<open>str\<close> of the first two;
  \<^item> \<open>RawStr s\<close>: a string;
  \<^item> \<open>RawNone\<close>: \<^verbatim>\<open>None\<close>;
  \<^item> \<open>RawOther r\<close>: any other object, \<open>r\<close> being what \<^verbatim>\<open>str(raw)\<close> returns or raises.
\<close>

datatype raw = RawSeq pystr pystr | RawStr pystr | RawNone | RawOther "exn + pystr"

text \<open>
  The texts the handler ends with, and how many times it has called
  \<^verbatim>\<open>_sympy_fallback\<close>.
\<close>

record answer =
  display_text :: pystr
  latex_text :: pystr
  fallback_calls :: nat

definition from_fallback :: "'e cas \<Rightarrow> pystr \<Rightarrow> nat \<Rightarrow> answer" where
  "from_fallback c problem n =
     (case sympy_fallback c problem of
        (d, l) \<Rightarrow> \<lparr>display_text = d, latex_text = l, fallback_calls = Suc n\<rparr>)"

text \<open>
  The \<^verbatim>\<open>if\<close> chain under \<^verbatim>\<open># Normalize into display_text, latex_text\<close>; the solver's
  outcome is its return value, or the exception it raised, which the handler turns into a
  string.
\<close>

definition normalize_raw :: "'e cas \<Rightarrow> pystr \<Rightarrow> exn + raw \<Rightarrow> answer" where
  "normalize_raw c problem outcome =
     (let raw = (case outcome of
                   Inr r \<Rightarrow> r
                 | Inl e \<Rightarrow> RawStr (U ''Error: solver raised exception: '' @ message e))
      in case raw of
           RawSeq d l \<Rightarrow> \<lparr>display_text = d, latex_text = l, fallback_calls = 0\<rparr>
         | RawStr s \<Rightarrow> \<lparr>display_text = s, latex_text = [], fallback_calls = 0\<rparr>
         | RawNone \<Rightarrow> from_fallback c problem 0
         | RawOther r \<Rightarrow>
             (case r of
                Inr s \<Rightarrow>
                  if s \<noteq> [] \<and> \<not> is_empty_str (Some s)
                  then \<lparr>display_text = s, latex_text = [], fallback_calls = 0\<rparr>
                  else from_fallback c problem 0
              | Inl _ \<Rightarrow> from_fallback c problem 0))"

text \<open>The statement under \<^verbatim>\<open># If both results look empty ...\<close>.\<close>

definition recheck :: "'e cas \<Rightarrow> pystr \<Rightarrow> answer \<Rightarrow> answer" where
  "recheck c problem a =
     (if is_empty_str (Some (display_text a)) \<or> is_empty_str (Some (latex_text a)) then
        (case sympy_fallback c problem of
           (fb_display, fb_latex) \<Rightarrow>
             if fb_display \<noteq> [] \<and> \<not> is_empty_str (Some fb_display)
             then \<lparr>display_text = fb_display, latex_text = fb_latex,
                   fallback_calls = Suc (fallback_calls a)\<rparr>
             else a\<lparr>fallback_calls := Suc (fallback_calls a)\<rparr>)
      else a)"

definition resolve :: "'e cas \<Rightarrow> pystr \<Rightarrow> exn + raw \<Rightarrow> answer" where
  "resolve c problem outcome = recheck c problem (normalize_raw c problem outcome)"

text \<open>
  The handler with the solver of this repository, up to the rendering: \<open>None\<close> is the
  warning shown for a blank problem.
\<close>

definition solve_clicked :: "'e cas \<Rightarrow> pystr \<Rightarrow> answer option" where
  "solve_clicked c problem =
     (if problem = [] \<or> strip problem = [] then None
      else (case solve_math_problem c problem of
              (d, l) \<Rightarrow> Some (resolve c problem (Inr (RawSeq d l)))))"

section \<open>The command line: app.py\<close>

text \<open>
  \<^verbatim>\<open>repr\<close> of a string. Which code points beyond ASCII are printable is a table of the
  Unicode database, the parameter \<open>printable\<close>.
\<close>

definition hex_digit :: "nat \<Rightarrow> nat" where
  "hex_digit d = (if d < 10 then 48 + d else 87 + d)"

definition hex_fixed :: "nat \<Rightarrow> nat \<Rightarrow> pystr" where
  "hex_fixed width n = map (\<lambda>i. hex_digit ((n div 16 ^ i) mod 16)) (rev [0..<width])"

definition repr_char :: "(nat \<Rightarrow> bool) \<Rightarrow> nat \<Rightarrow> nat \<Rightarrow> pystr" where
  "repr_char printable quote ch =
     (if ch = quote \<or> ch = 92 then [92, ch]
      else if ch = 9 then [92, 116]
      else if ch = 10 then [92, 110]
      else if ch = 13 then [92, 114]
      else if ch < 32 \<or> ch = 127 then [92, 120] @ hex_fixed 2 ch
      else if ch < 127 then [ch]
      else if printable ch then [ch]
      else if ch \<le> 255 then [92, 120] @ hex_fixed 2 ch
      else if ch \<le> 65535 then [92, 117] @ hex_fixed 4 ch
      else [92, 85] @ hex_fixed 8 ch)"

definition repr_str :: "(nat \<Rightarrow> bool) \<Rightarrow> pystr \<Rightarrow> pystr" where
  "repr_str printable s =
     (let quote = (if 39 \<in> set s \<and> 34 \<notin> set s then 34 else 39)
      in [quote] @ concat (map (repr_char printable quote) s) @ [quote])"

text \<open>\<^verbatim>\<open>str\<close> of a tuple of two strings, which is what \<^verbatim>\<open>print\<close> writes for it.\<close>

definition str_pair :: "(nat \<Rightarrow> bool) \<Rightarrow> pystr \<times> pystr \<Rightarrow> pystr" where
  "str_pair printable t =
     U ''('' @ repr_str printable (fst t) @ U '', '' @ repr_str printable (snd t) @ U '')''"

text \<open>
  What the script writes to standard output for the line it read: the prompt of
  \<^verbatim>\<open>input\<close>, then the two \<^verbatim>\<open>print\<close> calls, each joining its arguments with a space and
  ending the line.
\<close>

definition main_output :: "(nat \<Rightarrow> bool) \<Rightarrow> 'e cas \<Rightarrow> pystr \<Rightarrow> pystr" where
  "main_output printable c problem =
     (let solution = solve_math_problem c problem;
          explanation = generate_explanation c problem
      in U ''Enter your math problem: '' @
         [10] @ U ''Solution:'' @ U '' '' @ str_pair printable solution @ [10] @
         [10] @ U ''Explanation:'' @ U '' '' @ explanation @ [10])"

section \<open>Instances of the library\<close>

text \<open>
  The objects of a small instance of the library, used where a theorem is applied to a
  concrete input: integers, floating-point numbers with an integral value, symbols,
  \<open>1/e\<close> and equations.
\<close>

datatype sym = Integer int | Float int | Symbol pystr | Reciprocal sym | Eq sym sym

definition not_tabulated :: exn where
  "not_tabulated = Exception (U ''not tabulated'')"

definition sym_x :: sym where
  "sym_x = Symbol (U ''x'')"

text \<open>
  The instance tabulates what SymPy answers to the calls the program makes on a few
  inputs, and raises on everything else, with messages of its own. On these inputs \<^verbatim>\<open>sympify\<close> evaluates
  \<^verbatim>\<open>2+2\<close> to the integer 4, \<^verbatim>\<open>diff(x, x)\<close> to the integer 1, \<^verbatim>\<open>integrate(1, x)\<close> and
  \<^verbatim>\<open>integrate(diff(x, x), x)\<close> to \<open>x\<close>, and \<^verbatim>\<open>diff(x, x)/x\<close> to \<open>1/x\<close>; \<^verbatim>\<open>sp.N\<close> turns an integer other than 0 into
  a float, whose \<^verbatim>\<open>str\<close> has fifteen significant digits.
\<close>

definition ex_sympify :: "pystr \<Rightarrow> exn + sym" where
  "ex_sympify p =
     (if p = U ''2+2'' then Inr (Integer 4)
      else if p = U ''diff(x, x)'' then Inr (Integer 1)
      else if p = U ''integrate(1, x)'' then Inr sym_x
      else if p = U ''integrate(diff(x, x), x)'' then Inr sym_x
      else if p = U ''x'' then Inr sym_x
      else if p = U ''Eq(1/x, 0)'' then Inr (Eq (Reciprocal sym_x) (Integer 0))
      else if p = U ''Eq(diff(x, x)/x, 0)'' then Inr (Eq (Reciprocal sym_x) (Integer 0))
      else Inl (Exception (U ''could not parse: '' @ p)))"

primrec ex_free_symbols :: "sym \<Rightarrow> sym list" where
  "ex_free_symbols (Integer n) = []"
| "ex_free_symbols (Float n) = []"
| "ex_free_symbols (Symbol name) = [Symbol name]"
| "ex_free_symbols (Reciprocal e) = ex_free_symbols e"
| "ex_free_symbols (Eq a b) = remdups (ex_free_symbols a @ ex_free_symbols b)"

definition ex_cls :: "sym \<Rightarrow> node" where
  "ex_cls e = (case e of Eq a b \<Rightarrow> EqualityNode | _ \<Rightarrow> OtherNode)"

definition ex_is_Number :: "sym \<Rightarrow> bool" where
  "ex_is_Number e = (case e of Integer n \<Rightarrow> True | Float n \<Rightarrow> True | _ \<Rightarrow> False)"

definition ex_N :: "sym \<Rightarrow> exn + sym" where
  "ex_N e =
     (case e of
        Integer n \<Rightarrow> if n = 0 then Inr (Integer 0) else Inr (Float n)
      | _ \<Rightarrow> Inr e)"

definition ex_str :: "sym \<Rightarrow> exn + pystr" where
  "ex_str e =
     (if e = Float 4 then Inr (U ''4.00000000000000'')
      else if e = Float 1 then Inr (U ''1.00000000000000'')
      else if e = Integer 4 then Inr (U ''4'')
      else if e = Integer 1 then Inr (U ''1'')
      else if e = Integer 0 then Inr (U ''0'')
      else if e = sym_x then Inr (U ''x'')
      else Inl not_tabulated)"

text \<open>On the tabulated objects \<^verbatim>\<open>format(obj, "")\<close> and \<^verbatim>\<open>str(obj)\<close> are the same text.\<close>

definition ex_format :: "sym \<Rightarrow> exn + pystr" where
  "ex_format e = ex_str e"

text \<open>The picture of \<open>1/x = 0\<close> that \<^verbatim>\<open>sp.pretty\<close> draws takes three lines.\<close>

definition ex_pretty :: "sym \<Rightarrow> exn + pystr" where
  "ex_pretty e =
     (if e = Float 4 then Inr (U ''4.00000000000000'')
      else if e = Float 1 then Inr (U ''1.00000000000000'')
      else if e = Integer 4 then Inr (U ''4'')
      else if e = Integer 1 then Inr (U ''1'')
      else if e = Integer 0 then Inr (U ''0'')
      else if e = sym_x then Inr (U ''x'')
      else if e = Eq sym_x (Integer 0) then Inr (U ''x = 0'')
      else if e = Eq (Reciprocal sym_x) (Integer 0)
        then Inr (U ''1    '' @ [10] @ [9472] @ U '' = 0'' @ [10] @ U ''x    '')
      else Inl not_tabulated)"

definition ex_latex :: "sym \<Rightarrow> exn + pystr" where
  "ex_latex e =
     (if e = Float 4 then Inr (U ''4.0'')
      else if e = Float 1 then Inr (U ''1.0'')
      else if e = Integer 4 then Inr (U ''4'')
      else if e = Integer 1 then Inr (U ''1'')
      else if e = Integer 0 then Inr (U ''0'')
      else if e = sym_x then Inr (U ''x'')
      else if e = Eq sym_x (Integer 0) then Inr (U ''x = 0'')
      else if e = Eq (Reciprocal sym_x) (Integer 0)
        then Inr ([92] @ U ''frac{1}{x} = 0'')
      else Inl not_tabulated)"

definition ex_solve_dict :: "sym \<Rightarrow> exn + (sym \<times> sym) list list" where
  "ex_solve_dict e =
     (if e = Eq (Reciprocal sym_x) (Integer 0) then Inr []
      else if e = Eq sym_x (Integer 0) then Inr [[(sym_x, Integer 0)]]
      else Inl not_tabulated)"

definition ex_solve :: "sym \<Rightarrow> sym \<Rightarrow> exn + sym solved" where
  "ex_solve e v =
     (if e = Eq sym_x (Integer 0) \<and> v = sym_x then Inr (SolList [Integer 0])
      else if e = Eq (Reciprocal sym_x) (Integer 0) \<and> v = sym_x then Inr (SolList [])
      else Inl not_tabulated)"

definition ex_sub :: "sym \<Rightarrow> sym \<Rightarrow> exn + sym" where
  "ex_sub a b = (if b = Integer 0 then Inr a else Inl not_tabulated)"

definition sympy_examples :: "sym cas" where
  "sympy_examples =
     \<lparr>sp_symbols = (\<lambda>names. (sym_x, Symbol (U ''y''), Symbol (U ''z''))),
      sp_sympify = ex_sympify,
      sp_simplify = Inr,
      sp_N = ex_N,
      sp_factor = Inr,
      sp_pretty = ex_pretty,
      sp_latex = ex_latex,
      sp_Eq = (\<lambda>a b. Inr (Eq a b)),
      sp_solve_dict = ex_solve_dict,
      sp_solve = ex_solve,
      sp_Integer = Integer,
      cls = ex_cls,
      doit = Inr,
      free_symbols = (\<lambda>e. Inr (ex_free_symbols e)),
      is_Number = ex_is_Number,
      lhs = (\<lambda>e. case e of Eq a b \<Rightarrow> a | _ \<Rightarrow> e),
      rhs = (\<lambda>e. case e of Eq a b \<Rightarrow> b | _ \<Rightarrow> e),
      py_sub = ex_sub,
      py_str = ex_str,
      py_format = ex_format,
      py_bool = (\<lambda>e. Inr True)\<rparr>"

text \<open>
  The same library with a symbol whose name is empty, which it prints as the empty text:
  the input \<^verbatim>\<open>Symbol('')+diff(1,x)\<close> evaluates to that symbol.
\<close>

definition empty_symbol_input :: pystr where
  "empty_symbol_input = U ''Symbol('' @ [39, 39] @ U '')+diff(1,x)''"

definition sympy_empty_symbol :: "sym cas" where
  "sympy_empty_symbol =
     sympy_examples
       \<lparr>sp_sympify := (\<lambda>p. if p = empty_symbol_input then Inr (Symbol []) else ex_sympify p),
        sp_pretty := (\<lambda>e. if e = Symbol [] then Inr [] else ex_pretty e),
        sp_latex := (\<lambda>e. if e = Symbol [] then Inr [] else ex_latex e)\<rparr>"



section \<open>Basic facts\<close>

lemma bind_Inr_iff: "bind m f = Inr y \<longleftrightarrow> (\<exists>x. m = Inr x \<and> f x = Inr y)"
  by (cases m) (simp_all add: bind_def)

lemma bind_Inr [simp]: "bind (Inr x) f = f x" by (simp add: bind_def)
lemma bind_Inl [simp]: "bind (Inl e) f = Inl e" by (simp add: bind_def)

lemmas ex_defs = sympy_examples_def ex_sympify_def ex_cls_def ex_is_Number_def ex_N_def ex_str_def
  ex_format_def ex_pretty_def ex_latex_def ex_solve_dict_def ex_solve_def ex_sub_def sym_x_def
  not_tabulated_def
lemmas solver_defs = solve_math_problem_def solve_body_def derivative_branch_def integral_branch_def
  equality_branch_def constant_branch_def symbols_branch_def sympy_to_display_def solution_part_def
  index0_def latex_sep_def error_pair_def
lemmas text_defs = U_def splitlines_def strip_def py_isspace_def is_linebreak_def

lemma solve_body_dispatch:
  "solve_body c problem =
     bind (sp_sympify c problem) (\<lambda>expr.
     bind (solver_shape c problem expr) (solver_branch c problem expr))"
proof (cases "sp_sympify c problem")
  case (Inl e)
  then show ?thesis by (simp add: solve_body_def)
next
  case (Inr expr)
  show ?thesis
  proof (cases "free_symbols c expr")
    case (Inl e)
    with Inr show ?thesis by (simp add: solve_body_def solver_shape_def solver_branch_def)
  next
    case fs: (Inr fs)
    with Inr show ?thesis by (simp add: solve_body_def solver_shape_def solver_branch_def)
  qed
qed

lemma explanation_body_dispatch:
  "explanation_body c problem =
     bind (sp_sympify c problem) (\<lambda>expr.
     bind (explanation_shape c problem expr) (explanation_branch c problem expr))"
proof (cases "sp_sympify c problem")
  case (Inl e)
  then show ?thesis by (simp add: explanation_body_def)
next
  case (Inr expr)
  show ?thesis
  proof (cases "free_symbols c expr")
    case (Inl e)
    with Inr show ?thesis by (simp add: explanation_body_def explanation_shape_def Let_def)
  next
    case fs: (Inr fs)
    with Inr show ?thesis
      by (simp add: explanation_body_def explanation_shape_def explanation_branch_def Let_def)
  qed
qed

lemma contains_iff: "contains t s \<longleftrightarrow> (\<exists>a b. s = a @ t @ b)"
proof (induction s)
  case Nil
  then show ?case by auto
next
  case (Cons ch s)
  show ?case
  proof
    assume "contains t (ch # s)"
    then consider "prefix t (ch # s)" | "contains t s" by auto
    then show "\<exists>a b. ch # s = a @ t @ b"
    proof cases
      case 1
      then obtain b where "ch # s = t @ b" by (auto simp: prefix_def)
      then have "ch # s = [] @ t @ b" by simp
      then show ?thesis by blast
    next
      case 2
      with Cons obtain a b where "s = a @ t @ b" by auto
      then have "ch # s = (ch # a) @ t @ b" by simp
      then show ?thesis by blast
    qed
  next
    assume "\<exists>a b. ch # s = a @ t @ b"
    then obtain a b where ab: "ch # s = a @ t @ b" by auto
    show "contains t (ch # s)"
    proof (cases a)
      case Nil
      with ab have "ch # s = t @ b" by simp
      then have "prefix t (ch # s)" by (rule prefixI)
      then show ?thesis by simp
    next
      case (Cons a0 a')
      with ab have "s = a' @ t @ b" by simp
      with Cons.IH show ?thesis by auto
    qed
  qed
qed


section \<open>The Derivative path\<close>



section \<open>Equations without a solution\<close>

text \<open>
  Claim C5, as stated: every input that parses to an equality for which the solver finds no
  solution yields the pair \<^verbatim>\<open>("No solution", "\text{No solution}")\<close>. It fails on
  \<^verbatim>\<open>Eq(diff(x, x)/x, 0)\<close>: the parser returns the equality \<open>1/x = 0\<close>, which has no
  solution, but the text contains \<^verbatim>\<open>diff(\<close>, so the Derivative branch answers with the
  rendering of the equation.
\<close>

theorem no_solution_counterexample:
  "sp_sympify sympy_examples (U ''Eq(diff(x, x)/x, 0)'') = Inr (Eq (Reciprocal sym_x) (Integer 0)) \<and>
   cls sympy_examples (Eq (Reciprocal sym_x) (Integer 0)) = EqualityNode \<and>
   sp_solve_dict sympy_examples (Eq (Reciprocal sym_x) (Integer 0)) = Inr [] \<and>
   solve_math_problem sympy_examples (U ''Eq(diff(x, x)/x, 0)'') =
     (U ''1 '' @ [9472] @ U '' = 0 x'', [92] @ U ''frac{1}{x} = 0'') \<and>
   solve_math_problem sympy_examples (U ''Eq(diff(x, x)/x, 0)'') \<noteq>
     (U ''No solution'', [92] @ U ''text{No solution}'')"
proof -
  have 1: "solve_math_problem sympy_examples (U ''Eq(diff(x, x)/x, 0)'') =
     (U ''1 '' @ [9472] @ U '' = 0 x'', [92] @ U ''frac{1}{x} = 0'')"
    by (simp add: solver_defs ex_defs text_defs)
  have 2: "(U ''1 '' @ [9472] @ U '' = 0 x'', [92] @ U ''frac{1}{x} = 0'') \<noteq>
     (U ''No solution'', [92] @ U ''text{No solution}'')"
    by (simp add: U_def)
  show ?thesis
    unfolding 1 using 2 by (simp add: ex_defs U_def)
qed

text \<open>
  Claim C5, amended. When the parser returns an Equality node, the text contains neither
  \<^verbatim>\<open>diff(\<close> nor \<^verbatim>\<open>integrate(\<close>, and \<^verbatim>\<open>sp.solve(expr, dict=True)\<close> returns the empty
  list, \<^verbatim>\<open>solve_math_problem\<close> returns exactly \<^verbatim>\<open>("No solution", "\text{No solution}")\<close>.
\<close>

theorem no_solution:
  assumes "sp_sympify c problem = Inr expr"
      and "cls c expr = EqualityNode"
      and "\<not> contains (U ''diff('') problem"
      and "\<not> contains (U ''integrate('') problem"
      and "sp_solve_dict c expr = Inr []"
  shows "solve_math_problem c problem = (U ''No solution'', [92] @ U ''text{No solution}'')"
  using assms
  by (simp add: solve_math_problem_def solve_body_def equality_branch_def)

text \<open>The input \<^verbatim>\<open>Eq(1/x, 0)\<close>.\<close>

theorem no_solution_witness:
  "sp_sympify sympy_examples (U ''Eq(1/x, 0)'') = Inr (Eq (Reciprocal sym_x) (Integer 0)) \<and>
   cls sympy_examples (Eq (Reciprocal sym_x) (Integer 0)) = EqualityNode \<and>
   \<not> contains (U ''diff('') (U ''Eq(1/x, 0)'') \<and>
   \<not> contains (U ''integrate('') (U ''Eq(1/x, 0)'') \<and>
   sp_solve_dict sympy_examples (Eq (Reciprocal sym_x) (Integer 0)) = Inr [] \<and>
   solve_math_problem sympy_examples (U ''Eq(1/x, 0)'') =
     (U ''No solution'', [92] @ U ''text{No solution}'')"
proof -
  have 1: "sp_sympify sympy_examples (U ''Eq(1/x, 0)'') = Inr (Eq (Reciprocal sym_x) (Integer 0))"
    by (simp add: ex_defs U_def)
  have 2: "cls sympy_examples (Eq (Reciprocal sym_x) (Integer 0)) = EqualityNode"
    by (simp add: ex_defs)
  have 3: "\<not> contains (U ''diff('') (U ''Eq(1/x, 0)'')"
    by (simp add: U_def)
  have 4: "\<not> contains (U ''integrate('') (U ''Eq(1/x, 0)'')"
    by (simp add: U_def)
  have 5: "sp_solve_dict sympy_examples (Eq (Reciprocal sym_x) (Integer 0)) = Inr []"
    by (simp add: ex_defs)
  from no_solution [OF 1 2 3 4 5] 1 2 3 4 5 show ?thesis by simp
qed

section \<open>The input 2+2\<close>

text \<open>
  Claim C7, as stated: on the input \<^verbatim>\<open>2+2\<close> the solver takes the ConstantExpression path
  and returns the display \<^verbatim>\<open>4\<close> and the LaTeX \<^verbatim>\<open>4\<close>. The path is right; the strings are
  not. The branch evaluates the simplified value with \<^verbatim>\<open>sp.N\<close>, and
  \<^verbatim>\<open>_sympy_to_display\<close> shows a number as \<^verbatim>\<open>str(sp.N(obj))\<close>: with SymPy the value is the
  float 4, whose \<^verbatim>\<open>str\<close> is \<^verbatim>\<open>4.00000000000000\<close> and whose LaTeX is \<^verbatim>\<open>4.0\<close>.
\<close>

theorem two_plus_two_counterexample:
  "solver_shape sympy_examples (U ''2+2'') (Integer 4) = Inr ConstantExpression \<and>
   solve_math_problem sympy_examples (U ''2+2'') = (U ''4.00000000000000'', U ''4.0'') \<and>
   solve_math_problem sympy_examples (U ''2+2'') \<noteq> (U ''4'', U ''4'')"
proof -
  have 1: "solve_math_problem sympy_examples (U ''2+2'') = (U ''4.00000000000000'', U ''4.0'')"
    by (simp add: solver_defs ex_defs text_defs)
  have 2: "(U ''4.00000000000000'', U ''4.0'') \<noteq> (U ''4'', U ''4'')"
    by (simp add: U_def)
  have 3: "solver_shape sympy_examples (U ''2+2'') (Integer 4) = Inr ConstantExpression"
    by (simp add: solver_shape_def ex_defs U_def)
  show ?thesis
    unfolding 1 using 2 3 by simp
qed

text \<open>
  Claim C7, amended. On the input \<^verbatim>\<open>2+2\<close>, when the parser returns an expression that is
  no Derivative, Integral or Equality node and has no free symbols, the solver takes the
  ConstantExpression path. When the value \<^verbatim>\<open>sp.N(sp.simplify(expr))\<close> is a number, the
  display is \<^verbatim>\<open>str\<close> of its numerical evaluation and the LaTeX string is its
  \<^verbatim>\<open>sp.latex\<close>.
\<close>

theorem two_plus_two:
  assumes "sp_sympify c (U ''2+2'') = Inr expr"
      and "cls c expr = OtherNode"
      and "free_symbols c expr = Inr []"
      and "sp_simplify c expr = Inr simplified"
      and "sp_N c simplified = Inr numeric"
      and "is_Number c numeric"
      and "sp_N c numeric = Inr evaluated"
      and "py_str c evaluated = Inr display"
      and "sp_latex c numeric = Inr latex"
  shows "solver_shape c (U ''2+2'') expr = Inr ConstantExpression \<and>
         solve_body c (U ''2+2'') = constant_branch c expr \<and>
         solve_math_problem c (U ''2+2'') = (display, latex)"
proof -
  have plain: "\<not> contains (U ''diff('') (U ''2+2'')" "\<not> contains (U ''integrate('') (U ''2+2'')"
    by (simp_all add: U_def)
  from assms(1-3) plain have shape: "solver_shape c (U ''2+2'') expr = Inr ConstantExpression"
    by (simp add: solver_shape_def)
  with assms(1) have body: "solve_body c (U ''2+2'') = constant_branch c expr"
    by (simp add: solve_body_dispatch solver_branch_def)
  from assms(4-9) have "constant_branch c expr = Inr (display, latex)"
    by (simp add: constant_branch_def sympy_to_display_def)
  with shape body show ?thesis
    by (simp add: solve_math_problem_def)
qed

text \<open>The tabulated library on \<^verbatim>\<open>2+2\<close>: the integer 4, evaluated to the float 4.\<close>

theorem two_plus_two_witness:
  "sp_sympify sympy_examples (U ''2+2'') = Inr (Integer 4) \<and>
   cls sympy_examples (Integer 4) = OtherNode \<and>
   free_symbols sympy_examples (Integer 4) = Inr [] \<and>
   sp_simplify sympy_examples (Integer 4) = Inr (Integer 4) \<and>
   sp_N sympy_examples (Integer 4) = Inr (Float 4) \<and>
   is_Number sympy_examples (Float 4) \<and>
   sp_N sympy_examples (Float 4) = Inr (Float 4) \<and>
   py_str sympy_examples (Float 4) = Inr (U ''4.00000000000000'') \<and>
   sp_latex sympy_examples (Float 4) = Inr (U ''4.0'') \<and>
   solver_shape sympy_examples (U ''2+2'') (Integer 4) = Inr ConstantExpression \<and>
   solve_body sympy_examples (U ''2+2'') = constant_branch sympy_examples (Integer 4) \<and>
   solve_math_problem sympy_examples (U ''2+2'') = (U ''4.00000000000000'', U ''4.0'')"
proof -
  have 1: "sp_sympify sympy_examples (U ''2+2'') = Inr (Integer 4)"
    by (simp add: ex_defs U_def)
  have 2: "cls sympy_examples (Integer 4) = OtherNode"
    by (simp add: ex_defs)
  have 3: "free_symbols sympy_examples (Integer 4) = Inr []"
    by (simp add: ex_defs)
  have 4: "sp_simplify sympy_examples (Integer 4) = Inr (Integer 4)"
    by (simp add: ex_defs)
  have 5: "sp_N sympy_examples (Integer 4) = Inr (Float 4)"
    by (simp add: ex_defs)
  have 6: "is_Number sympy_examples (Float 4)"
    by (simp add: ex_defs)
  have 7: "sp_N sympy_examples (Float 4) = Inr (Float 4)"
    by (simp add: ex_defs)
  have 8: "py_str sympy_examples (Float 4) = Inr (U ''4.00000000000000'')"
    by (simp add: ex_defs)
  have 9: "sp_latex sympy_examples (Float 4) = Inr (U ''4.0'')"
    by (simp add: ex_defs)
  from two_plus_two [OF 1 2 3 4 5 6 7 8 9] 1 2 3 4 5 6 7 8 9 show ?thesis by simp
qed

section \<open>The shapes of the solver and of the walkthrough\<close>

text \<open>
  Claim C3, as stated: \<^verbatim>\<open>generate_explanation\<close> classifies every input into the same
  shape as \<^verbatim>\<open>solve_math_problem\<close>, with Derivative tested first. It tests the constant
  shape first, and only by the class of the expression: on \<^verbatim>\<open>diff(x, x)\<close>, which the
  parser evaluates to the integer 1, the solver runs its Derivative branch (the text
  contains \<^verbatim>\<open>diff(\<close>) and the walkthrough its numeric branch.
\<close>

theorem shape_counterexample:
  "sp_sympify sympy_examples (U ''diff(x, x)'') = Inr (Integer 1) \<and>
   solver_shape sympy_examples (U ''diff(x, x)'') (Integer 1) = Inr Derivative \<and>
   explanation_shape sympy_examples (U ''diff(x, x)'') (Integer 1) = Inr ConstantExpression \<and>
   solve_body sympy_examples (U ''diff(x, x)'') =
     derivative_branch sympy_examples (U ''diff(x, x)'') (Integer 1) \<and>
   explanation_body sympy_examples (U ''diff(x, x)'') =
     explain_numeric sympy_examples (U ''diff(x, x)'') (Integer 1) [friendly_line]"
proof -
  have 1: "sp_sympify sympy_examples (U ''diff(x, x)'') = Inr (Integer 1)"
    by (simp add: ex_defs U_def)
  have 2: "solver_shape sympy_examples (U ''diff(x, x)'') (Integer 1) = Inr Derivative"
    by (simp add: solver_shape_def ex_defs U_def)
  have 3: "explanation_shape sympy_examples (U ''diff(x, x)'') (Integer 1) = Inr ConstantExpression"
    by (simp add: explanation_shape_def ex_defs U_def)
  from 1 2 3 show ?thesis
    by (simp add: solve_body_dispatch explanation_body_dispatch solver_branch_def
        explanation_branch_def)
qed

text \<open>
  Claim C3, amended. \<^verbatim>\<open>generate_explanation\<close> tests the shapes in the order
  ConstantExpression (no free symbols and no Derivative, Integral or Equality node),
  Derivative, Integral, Equality, ExpressionWithSymbols. Whenever it classifies an input,
  the solver classifies it into the same shape, except that an input the walkthrough takes
  as ConstantExpression is Derivative for the solver when its text contains \<^verbatim>\<open>diff(\<close>, and
  otherwise Integral when its text contains \<^verbatim>\<open>integrate(\<close>.
\<close>

theorem explanation_shape_agrees:
  assumes "explanation_shape c problem expr = Inr s"
  shows "solver_shape c problem expr =
           Inr (if s = ConstantExpression \<and> contains (U ''diff('') problem then Derivative
                else if s = ConstantExpression \<and> contains (U ''integrate('') problem then Integral
                else s)"
proof (cases "free_symbols c expr")
  case (Inl e)
  with assms show ?thesis by (simp add: explanation_shape_def)
next
  case (Inr fs)
  with assms show ?thesis
    by (cases "cls c expr")
       (auto simp: explanation_shape_def solver_shape_def split: if_splits)
qed

text \<open>The input \<^verbatim>\<open>integrate(1, x)\<close>: Integral for both.\<close>

theorem explanation_shape_agrees_witness:
  "explanation_shape sympy_examples (U ''integrate(1, x)'') sym_x = Inr Integral \<and>
   solver_shape sympy_examples (U ''integrate(1, x)'') sym_x = Inr Integral"
proof -
  have 1: "explanation_shape sympy_examples (U ''integrate(1, x)'') sym_x = Inr Integral"
    by (simp add: explanation_shape_def ex_defs U_def)
  from explanation_shape_agrees [OF 1] 1 show ?thesis by simp
qed

section \<open>Facts about the string operations\<close>

lemma linebreak_isspace: "is_linebreak ch \<Longrightarrow> py_isspace ch"
  by (auto simp: is_linebreak_def py_isspace_def)

lemma splitlines_from_covers:
  assumes "ch \<in> set cur \<or> ch \<in> set s" and "\<not> is_linebreak ch"
  shows "\<exists>line \<in> set (splitlines_from cur s). ch \<in> set line"
  using assms
proof (induction cur s rule: splitlines_from.induct)
  case (1 cur)
  then show ?case by auto
next
  case (2 cur c)
  then show ?case by auto
next
  case (3 cur c nxt rest)
  show ?case
  proof (cases "c = 13 \<and> nxt = 10")
    case True
    then have "is_linebreak c" "is_linebreak nxt" by (simp_all add: is_linebreak_def)
    with 3 True show ?thesis by auto
  next
    case False
    show ?thesis
    proof (cases "is_linebreak c")
      case True
      with 3 False show ?thesis by auto
    next
      case nb: False
      with 3 False show ?thesis by auto
    qed
  qed
qed

lemma strip_keeps:
  assumes "ch \<in> set s" and "\<not> py_isspace ch"
  shows "ch \<in> set (strip s)"
proof -
  have keep: "x \<in> set xs \<Longrightarrow> \<not> P x \<Longrightarrow> x \<in> set (dropWhile P xs)" for x :: nat and xs P
    by (induction xs) auto
  from assms have "ch \<in> set (dropWhile py_isspace s)" by (rule keep)
  then have "ch \<in> set (rev (dropWhile py_isspace s))" by simp
  then have "ch \<in> set (dropWhile py_isspace (rev (dropWhile py_isspace s)))"
    using assms(2) by (simp add: keep)
  then show ?thesis by (simp add: strip_def)
qed

lemma strip_empty_iff: "strip s = [] \<longleftrightarrow> (\<forall>ch \<in> set s. py_isspace ch)"
proof
  assume "strip s = []"
  then show "\<forall>ch \<in> set s. py_isspace ch"
    using strip_keeps by fastforce
next
  assume "\<forall>ch \<in> set s. py_isspace ch"
  then have d: "dropWhile py_isspace s = []" by (induction s) auto
  show "strip s = []" unfolding strip_def d by simp
qed

lemma join_covers: "p \<in> set ps \<Longrightarrow> set p \<subseteq> set (join sep ps)"
  by (induction sep ps rule: join.induct) auto

lemma join_nonempty: "p \<in> set ps \<Longrightarrow> p \<noteq> [] \<Longrightarrow> join sep ps \<noteq> []"
  using join_covers [of p ps sep] by (cases p) auto

lemma one_line_nonempty:
  assumes "ch \<in> set txt" and "\<not> py_isspace ch"
  shows "join sep (map strip (splitlines txt)) \<noteq> []"
proof -
  from assms have nb: "\<not> is_linebreak ch" using linebreak_isspace by blast
  have "\<exists>l \<in> set (splitlines_from [] txt). ch \<in> set l"
    by (rule splitlines_from_covers) (simp_all add: assms(1) nb)
  then obtain l where l: "l \<in> set (splitlines txt)" "ch \<in> set l"
    by (auto simp: splitlines_def)
  with assms(2) have "ch \<in> set (strip l)" by (simp add: strip_keeps)
  moreover from l have "strip l \<in> set (map strip (splitlines txt))" by simp
  ultimately show ?thesis using join_nonempty by fastforce
qed

lemma mapM_Inr:
  "mapM f xs = Inr ys \<Longrightarrow> list_all2 (\<lambda>x y. f x = Inr y) xs ys"
proof (induction xs arbitrary: ys)
  case Nil
  then show ?case by simp
next
  case (Cons x xs)
  then show ?case by (auto simp: bind_Inr_iff)
qed

section \<open>The output of the command line\<close>

text \<open>
  Claim C9 says that the script prints \<^verbatim>\<open>Solution: \<close> followed by the display string.
  The script passes the pair that \<^verbatim>\<open>solve_math_problem\<close> returns to \<^verbatim>\<open>print\<close>, which
  writes the pair as Python prints a tuple. On the input \<^verbatim>\<open>2+2\<close> the line reads
  \<^verbatim>\<open>Solution: ('4.00000000000000', '4.0')\<close>; the display string does not follow
  \<^verbatim>\<open>Solution: \<close> anywhere in the output. The line of the explanation is as claimed.
\<close>

theorem main_output_two_plus_two:
  "main_output printable sympy_examples (U ''2+2'') =
     U ''Enter your math problem: '' @ [10] @
     U ''Solution: ('' @ [39] @ U ''4.00000000000000'' @ [39] @ U '', '' @
       [39] @ U ''4.0'' @ [39] @ U '')'' @ [10] @ [10] @
     U ''Explanation: '' @ generate_explanation sympy_examples (U ''2+2'') @ [10] \<and>
   fst (solve_math_problem sympy_examples (U ''2+2'')) = U ''4.00000000000000'' \<and>
   \<not> contains (U ''Solution: 4.00000000000000'')
       (main_output printable sympy_examples (U ''2+2''))"
proof -
  have 1: "solve_math_problem sympy_examples (U ''2+2'') = (U ''4.00000000000000'', U ''4.0'')"
    by (simp add: solver_defs ex_defs text_defs)
  have 2: "repr_str printable (U ''4.00000000000000'') = [39] @ U ''4.00000000000000'' @ [39]"
    by (simp add: repr_str_def repr_char_def U_def)
  have 3: "repr_str printable (U ''4.0'') = [39] @ U ''4.0'' @ [39]"
    by (simp add: repr_str_def repr_char_def U_def)
  have 4: "main_output printable sympy_examples (U ''2+2'') =
     U ''Enter your math problem: '' @ [10] @
     U ''Solution: ('' @ [39] @ U ''4.00000000000000'' @ [39] @ U '', '' @
       [39] @ U ''4.0'' @ [39] @ U '')'' @ [10] @ [10] @
     U ''Explanation: '' @ generate_explanation sympy_examples (U ''2+2'') @ [10]"
    unfolding main_output_def Let_def str_pair_def 1 fst_conv snd_conv 2 3
    by (simp add: U_def)
  have 5: "generate_explanation sympy_examples (U ''2+2'') =
     paragraphs
       [friendly_line,
        U ''**Short answer:** 4.00000000000000'',
        [],
        U ''**Walkthrough:**'',
        U ''- I simplified the expression `2+2` and evaluated it.'',
        U ''$$ 4.0 $$'']"
    by (simp add: generate_explanation_def explanation_body_def explain_numeric_def
        latex_block_def ex_defs U_def)
  have 6: "\<not> contains (U ''Solution: 4.00000000000000'')
       (main_output printable sympy_examples (U ''2+2''))"
    unfolding 4 5 by (simp add: paragraphs_def friendly_line_def U_def)
  from 1 4 6 show ?thesis by simp
qed

section \<open>The Integral path\<close>

text \<open>
  Claim C4, as stated: every input whose parsed form is an Integral node, or whose text
  contains \<^verbatim>\<open>integrate(\<close>, yields two strings that end with \<^verbatim>\<open> + C\<close> when no exception
  occurs. The Derivative test comes first: the text \<^verbatim>\<open>integrate(diff(x, x), x)\<close>, which
  the parser evaluates to \<open>x\<close>, contains \<^verbatim>\<open>integrate(\<close> and \<^verbatim>\<open>diff(\<close>, runs the Derivative
  branch without an exception and yields \<open>x\<close> twice, with no constant added.
\<close>

theorem integral_suffix_counterexample:
  "contains (U ''integrate('') (U ''integrate(diff(x, x), x)'') \<and>
   sp_sympify sympy_examples (U ''integrate(diff(x, x), x)'') = Inr sym_x \<and>
   solve_body sympy_examples (U ''integrate(diff(x, x), x)'') = Inr (U ''x'', U ''x'') \<and>
   solve_math_problem sympy_examples (U ''integrate(diff(x, x), x)'') = (U ''x'', U ''x'') \<and>
   \<not> suffix (U '' + C'') (U ''x'')"
proof -
  have 1: "solve_body sympy_examples (U ''integrate(diff(x, x), x)'') = Inr (U ''x'', U ''x'')"
    by (simp add: solver_defs ex_defs text_defs)
  have 2: "\<not> suffix (U '' + C'') (U ''x'')"
    by (simp add: U_def suffix_def)
  from 1 2 show ?thesis
    by (simp add: solve_math_problem_def) (simp add: ex_defs U_def)
qed

text \<open>
  Claim C4, amended. When the parsed form is an Integral node or the text contains
  \<^verbatim>\<open>integrate(\<close>, the Derivative test fails (the parsed form is no Derivative node and the
  text does not contain \<^verbatim>\<open>diff(\<close>), and the \<^verbatim>\<open>try\<close> block ends without an exception,
  \<^verbatim>\<open>solve_math_problem\<close> returns the pair the block computed, and both the display string
  and the LaTeX string end with the literal \<^verbatim>\<open> + C\<close>.
\<close>

theorem integral_suffix:
  assumes "sp_sympify c problem = Inr expr"
      and "cls c expr = IntegralNode \<or> contains (U ''integrate('') problem"
      and "cls c expr \<noteq> DerivativeNode"
      and "\<not> contains (U ''diff('') problem"
      and "solve_body c problem = Inr (display, latex)"
  shows "solve_math_problem c problem = (display, latex) \<and>
         suffix (U '' + C'') display \<and> suffix (U '' + C'') latex"
proof -
  from assms(2-4) have "solver_shape c problem expr = Inr Integral"
    by (simp add: solver_shape_def)
  with assms(1,5) have "integral_branch c problem expr = Inr (display, latex)"
    by (simp add: solve_body_dispatch solver_branch_def)
  then obtain d l where "display = d @ U '' + C''" and "latex = l @ U '' + C''"
    by (auto simp: integral_branch_def bind_Inr_iff)
  with assms(5) show ?thesis
    by (simp add: solve_math_problem_def suffix_def)
qed

text \<open>The input \<^verbatim>\<open>integrate(1, x)\<close>, which the parser evaluates to \<open>x\<close>.\<close>

theorem integral_suffix_witness:
  "sp_sympify sympy_examples (U ''integrate(1, x)'') = Inr sym_x \<and>
   contains (U ''integrate('') (U ''integrate(1, x)'') \<and>
   cls sympy_examples sym_x \<noteq> DerivativeNode \<and>
   \<not> contains (U ''diff('') (U ''integrate(1, x)'') \<and>
   solve_body sympy_examples (U ''integrate(1, x)'') = Inr (U ''x + C'', U ''x + C'') \<and>
   solve_math_problem sympy_examples (U ''integrate(1, x)'') = (U ''x + C'', U ''x + C'') \<and>
   suffix (U '' + C'') (U ''x + C'')"
proof -
  have 1: "sp_sympify sympy_examples (U ''integrate(1, x)'') = Inr sym_x"
    by (simp add: ex_defs U_def)
  have 2: "contains (U ''integrate('') (U ''integrate(1, x)'')"
    by (simp add: U_def)
  have 3: "cls sympy_examples sym_x \<noteq> DerivativeNode"
    by (simp add: ex_defs)
  have 4: "\<not> contains (U ''diff('') (U ''integrate(1, x)'')"
    by (simp add: U_def)
  have 5: "solve_body sympy_examples (U ''integrate(1, x)'') = Inr (U ''x + C'', U ''x + C'')"
    by (simp add: solver_defs ex_defs text_defs)
  from integral_suffix [OF 1 disjI2 [OF 2] 3 4 5] 1 2 3 4 5 show ?thesis by simp
qed

section \<open>Exceptions in the solver\<close>

lemma bind_Inl_iff: "bind m f = Inl e \<longleftrightarrow> m = Inl e \<or> (\<exists>x. m = Inr x \<and> f x = Inl e)"
  by (cases m) simp_all








section \<open>Exceptions in the walkthrough\<close>


lemma latex_block_factor [simp]:
  "latex_block (c\<lparr>sp_factor := f\<rparr>) obj = latex_block c obj"
  by (simp add: latex_block_def split: block_arg.splits)

lemma explain_solution_factor [simp]:
  "explain_solution (c\<lparr>sp_factor := f\<rparr>) = explain_solution c"
  by (rule ext) (simp add: explain_solution_def split: prod.splits)


lemma explain_other_factor [simp]:
  "explain_numeric (c\<lparr>sp_factor := f\<rparr>) problem expr parts = explain_numeric c problem expr parts"
  "explain_derivative (c\<lparr>sp_factor := f\<rparr>) problem expr parts =
     explain_derivative c problem expr parts"
  "explain_integral (c\<lparr>sp_factor := f\<rparr>) problem expr parts =
     explain_integral c problem expr parts"
  "explain_equality (c\<lparr>sp_factor := f\<rparr>) expr parts = explain_equality c expr parts"
  by (simp_all add: explain_numeric_def explain_derivative_def explain_integral_def
      explain_equality_def Let_def cong: if_cong)






section \<open>An empty display string\<close>

text \<open>
  Claim C2 says that the display string is not empty for every non-empty input the parser
  accepts, and that one of the two strings is not empty for every input; the docstring of
  \<^verbatim>\<open>solve_math_problem\<close> calls the display text always present. The branches that show an
  expression return whatever the library prints for it, with no test. The parser accepts
  \<^verbatim>\<open>Symbol('')+diff(1,x)\<close> and evaluates it to the symbol with the empty name, whose
  pretty form and LaTeX form are both empty: the Derivative branch returns two empty
  strings.
\<close>

theorem display_empty_at_empty_symbol:
  "empty_symbol_input \<noteq> [] \<and>
   sp_sympify sympy_empty_symbol empty_symbol_input = Inr (Symbol []) \<and>
   solve_body sympy_empty_symbol empty_symbol_input = Inr ([], []) \<and>
   solve_math_problem sympy_empty_symbol empty_symbol_input = ([], [])"
proof -
  have "solve_body sympy_empty_symbol empty_symbol_input = Inr ([], [])"
    by (simp add: sympy_empty_symbol_def empty_symbol_input_def solver_defs ex_defs text_defs)
  then show ?thesis
    by (simp add: solve_math_problem_def)
       (simp add: sympy_empty_symbol_def empty_symbol_input_def ex_defs U_def)
qed

section \<open>The fallback of the web front end\<close>

lemma is_empty_str_iff:
  "is_empty_str (Some s) \<longleftrightarrow>
     (\<forall>ch \<in> set s. py_isspace ch) \<or>
     strip s \<in> {U ''[]'', U ''()'', U ''Tuple()'', U ''None'', U ''NoneType''}"
  by (auto simp: is_empty_str_def Let_def empties_def strip_empty_iff)

lemma is_empty_str_Nil [simp]: "is_empty_str (Some [])"
  by (simp add: is_empty_str_def strip_def)

lemma from_fallback_calls [simp]: "fallback_calls (from_fallback c problem n) = Suc n"
  by (simp add: from_fallback_def split: prod.splits)

lemma recheck_calls:
  "fallback_calls (recheck c problem a) =
     (if is_empty_str (Some (display_text a)) \<or> is_empty_str (Some (latex_text a))
      then Suc (fallback_calls a) else fallback_calls a)"
  by (simp add: recheck_def split: prod.splits)

text \<open>
  The handler leaves the fallback out exactly when the solver returns a sequence whose
  first two elements both do not look empty.
\<close>

lemma fallback_skipped_iff:
  "fallback_calls (resolve c problem outcome) = 0 \<longleftrightarrow>
      (\<exists>d l. outcome = Inr (RawSeq d l) \<and>
             \<not> is_empty_str (Some d) \<and> \<not> is_empty_str (Some l))"
proof (cases outcome)
  case (Inl e)
  then show ?thesis
    by (simp add: resolve_def recheck_calls normalize_raw_def)
next
  case (Inr r)
  then show ?thesis
    by (cases r)
       (auto simp: resolve_def recheck_calls normalize_raw_def split: sum.splits)
qed


end
